theory Spec2Isabelle
  imports Main
begin

section \<open>The COVID-19 report generator (functions/covid19_pdf.js)\<close>

text \<open>
  The file defines one exported function, \<open>pdfGenerateFile (datetime, country, image_file)\<close>.
  It fetches a statistics record, derives two tables, fetches the stored comments, assembles
  the content of a document definition and hands it to the PDF printer, which writes a file.
  The collaborators that live outside the file (the HTTP fetch, the country-name translation,
  the comment store, the clock, the PDF printer and the file system) are parameters of the
  model, collected in the record \<open>env\<close>; every call to one of them is recorded as an
  event, so that the model returns the result of the call together with the trace of its
  effects.
\<close>

subsection \<open>JavaScript values\<close>

text \<open>
  Numbers: the statistics are counts, so the model keeps the integers and \<open>NaN\<close>
  (what \<open>Number(undefined)\<close> gives).
\<close>

datatype number = NaN | Num int

datatype jsval = JUndefined | JNull | JBool bool | JNum number | JStr string

text \<open>
  The guard of line 57, \<open>image_file == ""\<close>, is JavaScript's loose equality with the
  empty string: a string is compared as a string; a number is compared with \<open>Number("") = 0\<close>;
  a boolean is first turned into 0 or 1; \<open>null\<close> and \<open>undefined\<close> are loosely equal
  only to each other.
\<close>

fun loose_eq_empty :: "jsval \<Rightarrow> bool" where
  "loose_eq_empty (JStr s) = (s = [])"
| "loose_eq_empty (JNum NaN) = False"
| "loose_eq_empty (JNum (Num i)) = (i = 0)"
| "loose_eq_empty (JBool b) = (\<not> b)"
| "loose_eq_empty JNull = False"
| "loose_eq_empty JUndefined = False"

text \<open>
  A field of the fetched record is absent (reading it gives \<open>undefined\<close>), \<open>null\<close>,
  or a number. \<open>Number(v)\<close> maps \<open>undefined\<close> to \<open>NaN\<close> and \<open>null\<close> to 0.
\<close>

datatype field = FMissing | FNull | FNum number

fun Number :: "field \<Rightarrow> number" where
  "Number FMissing = NaN"
| "Number FNull = Num 0"
| "Number (FNum n) = n"

subsection \<open>Decimal digits and \<open>toLocaleString\<close>\<close>

definition digit :: "nat \<Rightarrow> char" where
  "digit d = ''0123456789'' ! d"

fun dec :: "nat \<Rightarrow> string" where
  "dec n = (if n < 10 then [digit n] else dec (n div 10) @ [digit (n mod 10)])"

declare dec.simps [simp del]

text \<open>
  \<open>Number.prototype.toLocaleString()\<close> with no argument formats in the default locale of
  the process. The model is the formatting of the \<open>en-US\<close> locale (the one \<open>ja-JP\<close>
  shares for integers): decimal digits in groups of three counted from the right, groups
  separated by a comma, a leading minus sign for a negative number, and \<open>NaN\<close> for NaN.
  \<open>group_rev\<close> works on the reversed digit string.
\<close>

fun group_rev :: "string \<Rightarrow> string" where
  "group_rev (a # b # c # d # rest) = a # b # c # CHR '','' # group_rev (d # rest)"
| "group_rev ds = ds"

definition group3 :: "string \<Rightarrow> string" where
  "group3 ds = rev (group_rev (rev ds))"

fun toLocaleString :: "number \<Rightarrow> string" where
  "toLocaleString NaN = ''NaN''"
| "toLocaleString (Num i) =
     (if i < 0 then ''-'' @ group3 (dec (nat (- i))) else group3 (dec (nat i)))"

subsection \<open>Dates and \<open>toFormat\<close> (package date-utils)\<close>

text \<open>
  A \<open>Date\<close> is read through its local-time getters; \<open>getMonth\<close> counts from 0.
  \<open>toFormat("YYYY-MM-DD HH24:MI")\<close> replaces \<open>YYYY\<close> by the full year, \<open>MM\<close> by
  \<open>pad(getMonth() + 1, 2)\<close>, \<open>DD\<close> by \<open>pad(getDate(), 2)\<close>, \<open>HH24\<close> by
  \<open>pad(getHours(), 2)\<close> and \<open>MI\<close> by \<open>pad(getMinutes(), 2)\<close>, where \<open>pad\<close> puts
  zeros in front of the decimal string until it has the given length.
\<close>

record date =
  getFullYear :: nat
  getMonth :: nat
  getDate :: nat
  getHours :: nat
  getMinutes :: nat

definition pad :: "nat \<Rightarrow> nat \<Rightarrow> string" where
  "pad n len = replicate (len - length (dec n)) CHR ''0'' @ dec n"

definition toFormat :: "date \<Rightarrow> string" where
  "toFormat d =
     dec (getFullYear d) @ ''-'' @ pad (getMonth d + 1) 2 @ ''-'' @ pad (getDate d) 2
       @ '' '' @ pad (getHours d) 2 @ '':'' @ pad (getMinutes d) 2"

subsection \<open>The data the collaborators return\<close>

record stats =
  population :: field
  active :: field
  critical :: field
  recovered :: field
  cases :: field
  deaths :: field
  tests :: field

record comment_entry =
  datetime :: date
  comment :: string

subsection \<open>The document definition\<close>

text \<open>
  A table cell is either an object \<open>{text, style}\<close> or a bare string. A content block is a
  bare string, an object \<open>{text, style}\<close> with an optional \<open>id\<close>, a table
  \<open>{style, table: {heights, body}}\<close> or an image \<open>{image, width, height}\<close>.
\<close>

datatype cell = Styled string string | Plain string

datatype block =
    Str string
  | Text string string "string option"
  | Table string nat "cell list list"
  | Image jsval nat nat

text \<open>
  The string literals of the source that are not ASCII, as their UTF-8 bytes. In source
  order: the two header cells of the country table (country name, population; line 75),
  the six row labels of the status table (lines 92 to 97), the title (line 110), the
  prefix of the time line (line 112), the two subheadings (lines 116 and 120), the two
  header cells of the comment table (line 172) and the comment subheading (line 184).
\<close>

definition lit_country_name :: string where
  "lit_country_name = [CHR 0xE5, CHR 0x9B, CHR 0xBD] @ [CHR 0xE5, CHR 0x90, CHR 0x8D]"

definition lit_population :: string where
  "lit_population = [CHR 0xE4, CHR 0xBA, CHR 0xBA] @ [CHR 0xE5, CHR 0x8F, CHR 0xA3]"

definition lit_active :: string where
  "lit_active = [CHR 0xE6, CHR 0x84, CHR 0x9F] @ [CHR 0xE6, CHR 0x9F, CHR 0x93]
     @ [CHR 0xE8, CHR 0x80, CHR 0x85] @ [CHR 0xE6, CHR 0x95, CHR 0xB0]"

definition lit_critical :: string where
  "lit_critical = [CHR 0xE9, CHR 0x87, CHR 0x8D] @ [CHR 0xE7, CHR 0x97, CHR 0x85]
     @ [CHR 0xE8, CHR 0x80, CHR 0x85] @ [CHR 0xE6, CHR 0x95, CHR 0xB0]"

definition lit_recovered :: string where
  "lit_recovered = [CHR 0xE9, CHR 0x80, CHR 0x80] @ [CHR 0xE9, CHR 0x99, CHR 0xA2]
     @ [CHR 0xE3, CHR 0x83, CHR 0xBB] @ [CHR 0xE7, CHR 0x99, CHR 0x82]
     @ [CHR 0xE9, CHR 0xA4, CHR 0x8A] @ [CHR 0xE7, CHR 0xB5, CHR 0x82]
     @ [CHR 0xE4, CHR 0xBA, CHR 0x86]"

definition lit_cases :: string where
  "lit_cases = [CHR 0xE6, CHR 0x84, CHR 0x9F] @ [CHR 0xE6, CHR 0x9F, CHR 0x93]
     @ [CHR 0xE8, CHR 0x80, CHR 0x85] @ [CHR 0xE7, CHR 0xB4, CHR 0xAF]
     @ [CHR 0xE8, CHR 0xA8, CHR 0x88]"

definition lit_deaths :: string where
  "lit_deaths = [CHR 0xE6, CHR 0xAD, CHR 0xBB] @ [CHR 0xE4, CHR 0xBA, CHR 0xA1]
     @ [CHR 0xE8, CHR 0x80, CHR 0x85] @ [CHR 0xE7, CHR 0xB4, CHR 0xAF]
     @ [CHR 0xE8, CHR 0xA8, CHR 0x88]"

definition lit_tests :: string where
  "lit_tests = [CHR 0xE6, CHR 0xA4, CHR 0x9C] @ [CHR 0xE6, CHR 0x9F, CHR 0xBB]
     @ [CHR 0xE6, CHR 0x95, CHR 0xB0]"

definition lit_title :: string where
  "lit_title = ''COVID-19 '' @ [CHR 0xE3, CHR 0x83, CHR 0xAC] @ [CHR 0xE3, CHR 0x83, CHR 0x9D]
     @ [CHR 0xE3, CHR 0x83, CHR 0xBC] @ [CHR 0xE3, CHR 0x83, CHR 0x88]"

definition lit_created_at :: string where
  "lit_created_at = [CHR 0xE4, CHR 0xBD, CHR 0x9C] @ [CHR 0xE6, CHR 0x88, CHR 0x90]
     @ [CHR 0xE6, CHR 0x99, CHR 0x82] @ [CHR 0xE5, CHR 0x88, CHR 0xBB] @ '': ''"

definition lit_status_heading :: string where
  "lit_status_heading = [CHR 0xE6, CHR 0x84, CHR 0x9F] @ [CHR 0xE6, CHR 0x9F, CHR 0x93]
     @ [CHR 0xE7, CHR 0x8A, CHR 0xB6] @ [CHR 0xE6, CHR 0xB3, CHR 0x81]
     @ [CHR 0xEF, CHR 0xBC, CHR 0x9A]"

definition lit_chart_heading :: string where
  "lit_chart_heading = [CHR 0xE6, CHR 0x84, CHR 0x9F] @ [CHR 0xE6, CHR 0x9F, CHR 0x93]
     @ [CHR 0xE5, CHR 0xB1, CHR 0xA5] @ [CHR 0xE6, CHR 0xAD, CHR 0xB4]
     @ [CHR 0xE3, CHR 0x82, CHR 0xB0] @ [CHR 0xE3, CHR 0x83, CHR 0xA9]
     @ [CHR 0xE3, CHR 0x83, CHR 0x95] @ [CHR 0xEF, CHR 0xBC, CHR 0x9A]"

definition lit_date_time :: string where
  "lit_date_time = [CHR 0xE6, CHR 0x97, CHR 0xA5] @ [CHR 0xE6, CHR 0x99, CHR 0x82]"

definition lit_comment :: string where
  "lit_comment = [CHR 0xE3, CHR 0x82, CHR 0xB3] @ [CHR 0xE3, CHR 0x83, CHR 0xA1]
     @ [CHR 0xE3, CHR 0x83, CHR 0xB3] @ [CHR 0xE3, CHR 0x83, CHR 0x88]"

definition lit_comment_heading :: string where
  "lit_comment_heading = lit_comment @ [CHR 0xEF, CHR 0xBC, CHR 0x9A]"

subsection \<open>Exceptions, results and effects\<close>

datatype exn = Exn (ex_name: string) (ex_message: string)

text \<open>
  The function is \<open>async\<close>: \<open>Returns\<close> is the value its promise is fulfilled with, a
  file name or \<open>null\<close> (\<open>None\<close>), and \<open>Throws\<close> the exception it is rejected with.
\<close>

datatype outcome = Returns "string option" | Throws exn

datatype event =
    HttpGet string
  | TranslateCountryName string
  | CurrentTimeStamp
  | CommentGet string
  | CreatePdfKitDocument "block list"
  | CreateWriteStream string
  | ConsoleLog "string list"
  | ConsoleError string

text \<open>
  The collaborators. \<open>httpGet\<close>, \<open>translateCountryName\<close> and \<open>commentGet\<close> answer
  \<open>null\<close> (\<open>None\<close>) or a value. \<open>createPdfKitDocument\<close> stands for lines 191 and 192
  (building the printer and the document) and \<open>finished\<close> for lines 193 to 196 (opening
  the write stream, piping, ending and awaiting the end of the stream): each either
  completes (\<open>None\<close>) or raises the exception it returns.
\<close>

record env =
  BASE_URL :: string
  LOCAL_FOLDER :: string
  httpGet :: "string \<Rightarrow> stats option"
  translateCountryName :: "string \<Rightarrow> string option"
  commentGet :: "string \<Rightarrow> comment_entry list option"
  currentTimeStamp :: string
  createPdfKitDocument :: "block list \<Rightarrow> exn option"
  finished :: "string \<Rightarrow> exn option"

subsection \<open>pdfGenerateFile\<close>

text \<open>Lines 61 and 62.\<close>

definition url :: "env \<Rightarrow> string \<Rightarrow> string" where
  "url e country =
     (let u = BASE_URL e @ ''countries/'' @ country
      in if country = ''all'' then BASE_URL e @ ''all'' else u)"

text \<open>Lines 67 to 79: the country table.\<close>

definition info_table :: "env \<Rightarrow> string \<Rightarrow> stats \<Rightarrow> block" where
  "info_table e country result =
     (let translated = (case translateCountryName e country of None \<Rightarrow> country | Some t \<Rightarrow> t);
          population = toLocaleString (Number (population result))
      in Table ''tableBody'' 20
           [[Styled lit_country_name ''tableHeader'', Styled lit_population ''tableHeader''],
            [Plain translated, Plain population]])"

text \<open>Lines 81 to 100: the status table.\<close>

definition status_table :: "stats \<Rightarrow> block" where
  "status_table result =
     (let active = toLocaleString (Number (active result));
          critical = toLocaleString (Number (critical result));
          recovered = toLocaleString (Number (recovered result));
          cases = toLocaleString (Number (cases result));
          deaths = toLocaleString (Number (deaths result));
          tests = toLocaleString (Number (tests result))
      in Table ''tableBody'' 20
           [[Styled lit_active ''tableHeader'', Plain active],
            [Styled lit_critical ''tableHeader'', Plain critical],
            [Styled lit_recovered ''tableHeader'', Plain recovered],
            [Styled lit_cases ''tableHeader'', Plain cases],
            [Styled lit_deaths ''tableHeader'', Plain deaths],
            [Styled lit_tests ''tableHeader'', Plain tests]])"

text \<open>
  Lines 59 to 101: both tables start as the empty string and are replaced only when the
  fetch gave a result.
\<close>

definition tables :: "env \<Rightarrow> string \<Rightarrow> block \<times> block" where
  "tables e country =
     (case httpGet e (url e country) of
        None \<Rightarrow> (Str '''', Str '''')
      | Some result \<Rightarrow> (info_table e country result, status_table result))"

text \<open>Lines 108 to 123: the content array as the object literal builds it.\<close>

definition base_content :: "env \<Rightarrow> string \<Rightarrow> string \<Rightarrow> jsval \<Rightarrow> block list" where
  "base_content e date_time country image_file =
     [Text lit_title ''title'' None,
      Text (lit_created_at @ date_time) ''datetime'' None,
      fst (tables e country),
      Text lit_status_heading ''sub_title'' None,
      snd (tables e country),
      Text lit_chart_heading ''sub_title'' None,
      Image image_file 450 300]"

text \<open>Lines 125 to 131: the page-break rule reads the \<open>id\<close> of the node it is given.\<close>

fun node_id :: "block \<Rightarrow> string option" where
  "node_id (Text t s i) = i"
| "node_id b = None"

definition pageBreakBefore :: "block \<Rightarrow> bool" where
  "pageBreakBefore currentNode =
     (if node_id currentNode = Some ''comment'' then True else False)"

text \<open>Lines 177 to 181: the loop pushes one row per comment onto the body.\<close>

fun push_rows :: "cell list list \<Rightarrow> comment_entry list \<Rightarrow> cell list list" where
  "push_rows body [] = body"
| "push_rows body (c # comments) =
     push_rows (body @ [[Plain (toFormat (datetime c)), Plain (comment c)]]) comments"

definition comment_table :: "comment_entry list \<Rightarrow> block" where
  "comment_table comments =
     Table ''tableBody'' 20
       (push_rows [[Styled lit_date_time ''tableHeader'', Styled lit_comment ''tableHeader'']]
          comments)"

definition comment_heading :: block where
  "comment_heading = Text lit_comment_heading ''sub_title'' (Some ''comment'')"

text \<open>
  Lines 165 to 187: the content handed to the printer is the base content, followed by the
  comment subheading and the comment table when the store returned a non-empty list.
\<close>

definition content :: "env \<Rightarrow> string \<Rightarrow> string \<Rightarrow> jsval \<Rightarrow> block list" where
  "content e date_time country image_file =
     (case commentGet e country of
        None \<Rightarrow> base_content e date_time country image_file
      | Some comments \<Rightarrow>
          if length comments > 0
          then base_content e date_time country image_file
                 @ [comment_heading, comment_table comments]
          else base_content e date_time country image_file)"

text \<open>Line 104.\<close>

definition output_file :: "env \<Rightarrow> string \<Rightarrow> string" where
  "output_file e country =
     LOCAL_FOLDER e @ ''/Report-'' @ country @ ''-'' @ currentTimeStamp e @ ''.pdf''"

text \<open>
  Lines 198 to 201, the handler. It logs the name and the message of the exception and then
  assigns to \<open>output\<close>, an identifier that no declaration of the file introduces. The file
  is in strict mode (line 1), where an assignment to an undeclared identifier raises a
  \<open>ReferenceError\<close>; the exception leaves the handler and the function, and the
  \<open>return\<close> of line 203 is not reached.
\<close>

definition catch_handler :: "exn \<Rightarrow> event list \<Rightarrow> outcome \<times> event list" where
  "catch_handler ex evs =
     (Throws (Exn ''ReferenceError'' ''output is not defined''),
      evs @ [ConsoleError (ex_name ex @ '': '' @ ex_message ex)])"

text \<open>Lines 190 to 203.\<close>

definition render_and_save :: "env \<Rightarrow> block list \<Rightarrow> string \<Rightarrow> outcome \<times> event list" where
  "render_and_save e doc file =
     (case createPdfKitDocument e doc of
        Some ex \<Rightarrow> catch_handler ex [CreatePdfKitDocument doc]
      | None \<Rightarrow>
          (case finished e file of
             Some ex \<Rightarrow> catch_handler ex [CreatePdfKitDocument doc, CreateWriteStream file]
           | None \<Rightarrow>
               (Returns (Some file),
                [CreatePdfKitDocument doc, CreateWriteStream file,
                 ConsoleLog [''[INFO] '', file, ''has been saved.'']])))"

text \<open>The events of lines 64 to 165, in the order of the calls.\<close>

definition fetch_events :: "env \<Rightarrow> string \<Rightarrow> event list" where
  "fetch_events e country =
     [HttpGet (url e country)]
       @ (case httpGet e (url e country) of
            None \<Rightarrow> []
          | Some result \<Rightarrow> [TranslateCountryName country])
       @ [CurrentTimeStamp, CommentGet country]"

definition pdfGenerateFile :: "env \<Rightarrow> string \<Rightarrow> string \<Rightarrow> jsval \<Rightarrow> outcome \<times> event list" where
  "pdfGenerateFile e date_time country image_file =
     (if loose_eq_empty image_file then (Returns None, [])
      else
        (let (r, evs) = render_and_save e (content e date_time country image_file)
                          (output_file e country)
         in (r, fetch_events e country @ evs)))"

subsection \<open>Predicates used in the statements\<close>

fun is_table :: "block \<Rightarrow> bool" where
  "is_table (Table s h body) = True"
| "is_table b = False"

definition fixed_blocks :: "block list \<Rightarrow> block list" where
  "fixed_blocks bs = filter (\<lambda>b. \<not> is_table b) bs"

fun table_body :: "block \<Rightarrow> cell list list" where
  "table_body (Table s h body) = body"
| "table_body b = []"

text \<open>
  A cell is a node of the document as well: an object \<open>{text, style}\<close> without
  \<open>id\<close>, or a bare string.
\<close>

fun cell_node :: "cell \<Rightarrow> block" where
  "cell_node (Styled t s) = Text t s None"
| "cell_node (Plain s) = Str s"

fun is_write :: "event \<Rightarrow> bool" where
  "is_write (CreateWriteStream file) = True"
| "is_write ev = False"

definition is_digit :: "char \<Rightarrow> bool" where
  "is_digit c = (c \<in> set ''0123456789'')"

text \<open>
  The shape \<open>YYYY-MM-DD HH:MM\<close>: sixteen characters, digits everywhere but at the four
  separators.
\<close>

definition is_timestamp_text :: "string \<Rightarrow> bool" where
  "is_timestamp_text s =
     (length s = 16 \<and> s ! 4 = CHR ''-'' \<and> s ! 7 = CHR ''-'' \<and> s ! 10 = CHR '' ''
        \<and> s ! 13 = CHR '':''
        \<and> list_all (\<lambda>i. is_digit (s ! i)) [0, 1, 2, 3, 5, 6, 8, 9, 11, 12, 14, 15])"

text \<open>
  The ranges of the getters of a \<open>Date\<close>, for a year of four digits.
\<close>

definition valid_date :: "date \<Rightarrow> bool" where
  "valid_date d =
     (1000 \<le> getFullYear d \<and> getFullYear d \<le> 9999 \<and> getMonth d \<le> 11
        \<and> 1 \<le> getDate d \<and> getDate d \<le> 31 \<and> getHours d \<le> 23 \<and> getMinutes d \<le> 59)"

subsection \<open>A concrete environment\<close>

text \<open>
  The statistics source knows the aggregate only; one of its fields is \<open>null\<close> and one
  is absent. The comment store has two comments for \<open>all\<close>, none for \<open>Japan\<close> and
  fails for every other country. The printer rejects a document whose image is the file
  \<open>missing.png\<close>, and one whose image is \<open>null\<close> or \<open>undefined\<close>: pdfmake
  finds no node type for an entry \<open>{image: null, width, height}\<close> and throws while it
  builds the document.
\<close>

definition stats_example :: stats where
  "stats_example =
     \<lparr>population = FNum (Num 1234567), active = FNum (Num 1000), critical = FNull,
      recovered = FMissing, cases = FNum (Num 2000), deaths = FNum (Num 30),
      tests = FNum (Num 500000)\<rparr>"

definition comments_example :: "comment_entry list" where
  "comments_example =
     [\<lparr>datetime = \<lparr>getFullYear = 2020, getMonth = 10, getDate = 3, getHours = 9,
                    getMinutes = 5\<rparr>,
       comment = ''first entry''\<rparr>,
      \<lparr>datetime = \<lparr>getFullYear = 2021, getMonth = 0, getDate = 15, getHours = 23,
                    getMinutes = 40\<rparr>,
       comment = ''second entry''\<rparr>]"

definition env_example :: env where
  "env_example =
     \<lparr>BASE_URL = ''https://disease.sh/v3/covid-19/'',
      LOCAL_FOLDER = ''./tmp'',
      httpGet = (\<lambda>u. if u = ''https://disease.sh/v3/covid-19/all'' then Some stats_example
                     else None),
      translateCountryName = (\<lambda>c. None),
      commentGet = (\<lambda>c. if c = ''all'' then Some comments_example
                        else if c = ''Japan'' then Some [] else None),
      currentTimeStamp = ''20201103-101500'',
      createPdfKitDocument =
        (\<lambda>doc. if Image (JStr ''missing.png'') 450 300 \<in> set doc
               then Some (Exn ''Error'' ''Invalid image'')
               else if Image JNull 450 300 \<in> set doc \<or> Image JUndefined 450 300 \<in> set doc
               then Some (Exn ''Error'' ''Unrecognized document structure'')
               else None),
      finished = (\<lambda>file. None)\<rparr>"

section \<open>Auxiliary facts\<close>

subsection \<open>Decimal strings\<close>

lemma dec_lt10: "n < 10 \<Longrightarrow> dec n = [digit n]"
  by (simp add: dec.simps)

lemma dec_ge10: "10 \<le> n \<Longrightarrow> dec n = dec (n div 10) @ [digit (n mod 10)]"
  by (subst dec.simps) simp

lemma dec_ge1000:
  assumes "1000 \<le> n"
  shows "dec n = dec (n div 1000)
           @ [digit (n div 100 mod 10), digit (n div 10 mod 10), digit (n mod 10)]"
proof -
  have a: "10 \<le> n" and b: "10 \<le> n div 10" and c: "10 \<le> n div 100"
    using assms by simp_all
  have d: "n div 10 div 10 = n div 100" and e: "n div 100 div 10 = n div 1000"
    by (simp_all add: div_mult2_eq[symmetric])
  have "dec n = dec (n div 10) @ [digit (n mod 10)]"
    by (rule dec_ge10[OF a])
  also have "dec (n div 10) = dec (n div 100) @ [digit (n div 10 mod 10)]"
    using dec_ge10[OF b] by (simp only: d)
  also have "dec (n div 100) = dec (n div 1000) @ [digit (n div 100 mod 10)]"
    using dec_ge10[OF c] by (simp only: e)
  finally show ?thesis by simp
qed

lemma dec_nonempty: "dec n \<noteq> []"
  by (subst dec.simps) simp

lemma dec_length_lt1000: "n < 1000 \<Longrightarrow> length (dec n) \<le> 3"
  by (simp add: dec.simps)

lemma digit_is_digit: "d < 10 \<Longrightarrow> is_digit (digit d)"
proof -
  assume "d < 10"
  then have "d \<in> {0, 1, 2, 3, 4, 5, 6, 7, 8, 9}" by auto
  then show ?thesis by (auto simp: digit_def is_digit_def)
qed

subsection \<open>Grouping\<close>

lemma group3_small: "length ds \<le> 3 \<Longrightarrow> group3 ds = ds"
proof -
  assume "length ds \<le> 3"
  then have "length (rev ds) \<le> 3" by simp
  then have "group_rev (rev ds) = rev ds"
    by (cases "rev ds" rule: group_rev.cases) simp_all
  then show ?thesis by (simp add: group3_def)
qed

lemma group3_snoc3:
  "ds \<noteq> [] \<Longrightarrow> group3 (ds @ [a, b, c]) = group3 ds @ CHR '','' # [a, b, c]"
proof -
  assume "ds \<noteq> []"
  then obtain d rest where r: "rev ds = d # rest"
    by (cases "rev ds") simp_all
  show ?thesis by (simp add: group3_def r)
qed

subsection \<open>Padding and the date format\<close>

lemma pad2: "n < 100 \<Longrightarrow> pad n 2 = [digit (n div 10), digit (n mod 10)]"
proof (cases "n < 10")
  case True
  then show ?thesis by (simp add: pad_def dec_lt10 digit_def)
next
  case False
  assume "n < 100"
  with False have "dec n = [digit (n div 10), digit (n mod 10)]"
    by (simp add: dec_ge10 dec_lt10)
  then show ?thesis by (simp add: pad_def)
qed

lemma pad2_digits:
  assumes "n < 100"
  obtains a b where "pad n 2 = [a, b]" "is_digit a" "is_digit b"
proof -
  have "n div 10 < 10" using assms by simp
  then show ?thesis
    using that[of "digit (n div 10)" "digit (n mod 10)"] pad2[OF assms]
    by (simp add: digit_is_digit)
qed

lemma year_digits:
  assumes "1000 \<le> y" "y \<le> 9999"
  obtains a b c d where "dec y = [a, b, c, d]"
    "is_digit a" "is_digit b" "is_digit c" "is_digit d"
proof -
  have "y div 1000 < 10" using assms by simp
  then show ?thesis
    using that[of "digit (y div 1000)" "digit (y div 100 mod 10)" "digit (y div 10 mod 10)"
        "digit (y mod 10)"] dec_ge1000[OF assms(1)]
    by (simp add: digit_is_digit dec_lt10)
qed

lemma toFormat_shape: "valid_date d \<Longrightarrow> is_timestamp_text (toFormat d)"
proof -
  assume v: "valid_date d"
  from v obtain y1 y2 y3 y4 where y: "dec (getFullYear d) = [y1, y2, y3, y4]"
      "is_digit y1" "is_digit y2" "is_digit y3" "is_digit y4"
    by (auto simp: valid_date_def elim: year_digits)
  from v have "getMonth d + 1 < 100" by (simp add: valid_date_def)
  then obtain m1 m2 where m: "pad (getMonth d + 1) 2 = [m1, m2]" "is_digit m1" "is_digit m2"
    by (rule pad2_digits)
  from v have "getDate d < 100" by (simp add: valid_date_def)
  then obtain d1 d2 where dd: "pad (getDate d) 2 = [d1, d2]" "is_digit d1" "is_digit d2"
    by (rule pad2_digits)
  from v have "getHours d < 100" by (simp add: valid_date_def)
  then obtain h1 h2 where h: "pad (getHours d) 2 = [h1, h2]" "is_digit h1" "is_digit h2"
    by (rule pad2_digits)
  from v have "getMinutes d < 100" by (simp add: valid_date_def)
  then obtain n1 n2 where n: "pad (getMinutes d) 2 = [n1, n2]" "is_digit n1" "is_digit n2"
    by (rule pad2_digits)
  have "toFormat d = [y1, y2, y3, y4, CHR ''-'', m1, m2, CHR ''-'', d1, d2, CHR '' '',
      h1, h2, CHR '':'', n1, n2]"
    unfolding toFormat_def y(1) m(1) dd(1) h(1) n(1) by simp
  then show ?thesis
    using y(2-) m(2-) dd(2-) h(2-) n(2-) by (simp add: is_timestamp_text_def)
qed

subsection \<open>The comment loop\<close>

lemma push_rows_map:
  "push_rows body comments =
     body @ map (\<lambda>c. [Plain (toFormat (datetime c)), Plain (comment c)]) comments"
  by (induction comments arbitrary: body) simp_all

subsection \<open>The pipeline\<close>

lemmas lit_defs = lit_country_name_def lit_population_def lit_active_def lit_critical_def
  lit_recovered_def lit_cases_def lit_deaths_def lit_tests_def lit_title_def
  lit_created_at_def lit_status_heading_def lit_chart_heading_def lit_date_time_def
  lit_comment_def lit_comment_heading_def

lemma printer_receives_content:
  "\<not> loose_eq_empty image_file \<Longrightarrow>
     CreatePdfKitDocument (content e date_time country image_file)
       \<in> set (snd (pdfGenerateFile e date_time country image_file))"
  by (simp add: pdfGenerateFile_def render_and_save_def catch_handler_def
      split: option.splits)

lemma fetches_in_trace:
  "\<not> loose_eq_empty image_file \<Longrightarrow>
     HttpGet (url e country) \<in> set (snd (pdfGenerateFile e date_time country image_file))
     \<and> CommentGet country \<in> set (snd (pdfGenerateFile e date_time country image_file))"
  by (simp add: pdfGenerateFile_def fetch_events_def split: prod.splits)

lemma first_event:
  "\<not> loose_eq_empty image_file \<Longrightarrow>
     hd (snd (pdfGenerateFile e date_time country image_file)) = HttpGet (url e country)"
  by (simp add: pdfGenerateFile_def fetch_events_def split: prod.splits)

lemma saved_outcome:
  "\<not> loose_eq_empty image_file \<Longrightarrow>
   createPdfKitDocument e (content e date_time country image_file) = None \<Longrightarrow>
   finished e (output_file e country) = None \<Longrightarrow>
     pdfGenerateFile e date_time country image_file =
       (Returns (Some (output_file e country)),
        fetch_events e country
          @ [CreatePdfKitDocument (content e date_time country image_file),
             CreateWriteStream (output_file e country),
             ConsoleLog [''[INFO] '', output_file e country, ''has been saved.'']])"
  by (simp add: pdfGenerateFile_def render_and_save_def)

lemma write_attempted:
  "\<not> loose_eq_empty image_file \<Longrightarrow>
   createPdfKitDocument e (content e date_time country image_file) = None \<Longrightarrow>
     CreateWriteStream (output_file e country)
       \<in> set (snd (pdfGenerateFile e date_time country image_file))"
  by (simp add: pdfGenerateFile_def render_and_save_def catch_handler_def
      split: option.splits)

lemma write_iff_accepted:
  "\<not> loose_eq_empty image_file \<Longrightarrow>
     (CreateWriteStream (output_file e country)
        \<in> set (snd (pdfGenerateFile e date_time country image_file)))
     = (createPdfKitDocument e (content e date_time country image_file) = None)"
  by (auto simp: pdfGenerateFile_def render_and_save_def catch_handler_def fetch_events_def
      split: option.splits)

lemma no_write_iff_rejected:
  "\<not> loose_eq_empty image_file \<Longrightarrow>
     (filter is_write (snd (pdfGenerateFile e date_time country image_file)) = [])
     = (createPdfKitDocument e (content e date_time country image_file) \<noteq> None)"
  by (auto simp: pdfGenerateFile_def render_and_save_def catch_handler_def fetch_events_def
      split: option.splits)

lemma content_prefix:
  "take 7 (content e date_time country image_file)
     = base_content e date_time country image_file"
  by (simp add: content_def base_content_def split: option.splits)

lemma base_no_page_break:
  "filter pageBreakBefore (base_content e date_time country image_file) = []"
  by (simp add: base_content_def tables_def pageBreakBefore_def info_table_def
      status_table_def Let_def split: option.splits)

lemma comment_table_not_in_base:
  "comment_table cs \<notin> set (base_content e date_time country image_file)"
  by (simp add: base_content_def tables_def comment_table_def info_table_def
      status_table_def Let_def push_rows_map lit_defs split: option.splits)

lemma comment_heading_not_in_base:
  "comment_heading \<notin> set (base_content e date_time country image_file)"
  by (simp add: base_content_def tables_def comment_heading_def info_table_def
      status_table_def Let_def split: option.splits)

lemma toLocaleString_small:
  "0 \<le> i \<Longrightarrow> i < 1000 \<Longrightarrow> toLocaleString (Num i) = dec (nat i)"
  by (simp add: group3_small dec_length_lt1000)

lemma toLocaleString_thousands:
  assumes "1000 \<le> i"
  shows "toLocaleString (Num i) =
     toLocaleString (Num (i div 1000)) @ '','' @
       [digit (nat i div 100 mod 10), digit (nat i div 10 mod 10), digit (nat i mod 10)]"
proof -
  have n: "1000 \<le> nat i" using assms by simp
  have d: "nat (i div 1000) = nat i div 1000" using assms
    by (simp add: nat_div_distrib)
  have "0 \<le> i div 1000" using assms by simp
  then show ?thesis
    using assms by (simp add: dec_ge1000[OF n] group3_snoc3 dec_nonempty d)
qed

text \<open>
  What the handler does with an exception of the printer or of the write: the function
  ends with the \<open>ReferenceError\<close> of line 200, after the error line has been logged.
\<close>

lemma render_failure_throws:
  assumes "\<not> loose_eq_empty image_file"
    and "createPdfKitDocument e (content e date_time country image_file) = Some ex"
  shows "pdfGenerateFile e date_time country image_file =
     (Throws (Exn ''ReferenceError'' ''output is not defined''),
      fetch_events e country
        @ [CreatePdfKitDocument (content e date_time country image_file),
           ConsoleError (ex_name ex @ '': '' @ ex_message ex)])"
  using assms by (simp add: pdfGenerateFile_def render_and_save_def catch_handler_def)

lemma write_failure_throws:
  assumes "\<not> loose_eq_empty image_file"
    and "createPdfKitDocument e (content e date_time country image_file) = None"
    and "finished e (output_file e country) = Some ex"
  shows "pdfGenerateFile e date_time country image_file =
     (Throws (Exn ''ReferenceError'' ''output is not defined''),
      fetch_events e country
        @ [CreatePdfKitDocument (content e date_time country image_file),
           CreateWriteStream (output_file e country),
           ConsoleError (ex_name ex @ '': '' @ ex_message ex)])"
  using assms by (simp add: pdfGenerateFile_def render_and_save_def catch_handler_def)

section \<open>The claims\<close>

subsection \<open>C1: an exception while rendering or writing\<close>

text \<open>
  C1 says that an exception raised while the document is rendered or written is caught and
  logged and that the function then returns \<open>null\<close>. The header comment of the function
  promises the same (\<open>null\<close> on failure). The code catches and logs, but the handler
  then assigns to the undeclared \<open>output\<close> instead of \<open>output_file\<close>, in strict
  mode. Evaluated in the concrete environment, whose printer rejects the image
  \<open>missing.png\<close>: the call ends with a \<open>ReferenceError\<close>, does not return
  \<open>null\<close>, and the last event is the logged error line.
\<close>

theorem handler_raises_reference_error:
  "fst (pdfGenerateFile env_example ''2020-11-03 10:15'' ''Japan'' (JStr ''missing.png''))
     = Throws (Exn ''ReferenceError'' ''output is not defined'')
   \<and> fst (pdfGenerateFile env_example ''2020-11-03 10:15'' ''Japan'' (JStr ''missing.png''))
     \<noteq> Returns None
   \<and> last (snd (pdfGenerateFile env_example ''2020-11-03 10:15'' ''Japan''
        (JStr ''missing.png''))) = ConsoleError ''Error: Invalid image''"
  by (simp add: pdfGenerateFile_def render_and_save_def content_def base_content_def
      env_example_def catch_handler_def fetch_events_def)

subsection \<open>C2: the empty image handle\<close>

text \<open>
  C2: called with the empty string as image handle, the function returns \<open>null\<close> at
  once; the trace is empty, so there is no statistics fetch, no comment fetch, no
  document, no file write and no log line.
\<close>

theorem empty_image_returns_null:
  "pdfGenerateFile e date_time country (JStr '''') = (Returns None, [])"
  by (simp add: pdfGenerateFile_def)

subsection \<open>C3: the statistics fetch gives no data\<close>

text \<open>
  C3: with a non-empty image handle and a statistics fetch that returns \<open>null\<close>, the
  base content is the title, the time line, the two subheadings and the image, with the
  empty string left in the two places of the tables; it contains no table. The document
  handed to the printer starts with these seven entries, and when neither the printer nor
  the write raises, the function returns the file name.
\<close>

theorem failed_statistics_fetch_document:
  assumes "\<not> loose_eq_empty image_file"
    and "httpGet e (url e country) = None"
  shows "base_content e date_time country image_file =
           [Text lit_title ''title'' None,
            Text (lit_created_at @ date_time) ''datetime'' None,
            Str '''',
            Text lit_status_heading ''sub_title'' None,
            Str '''',
            Text lit_chart_heading ''sub_title'' None,
            Image image_file 450 300]
       \<and> filter is_table (base_content e date_time country image_file) = []
       \<and> take 7 (content e date_time country image_file)
           = base_content e date_time country image_file
       \<and> CreatePdfKitDocument (content e date_time country image_file)
           \<in> set (snd (pdfGenerateFile e date_time country image_file))
       \<and> (createPdfKitDocument e (content e date_time country image_file) = None
            \<and> finished e (output_file e country) = None
          \<longrightarrow> fst (pdfGenerateFile e date_time country image_file)
                = Returns (Some (output_file e country)))"
proof -
  have b: "base_content e date_time country image_file =
           [Text lit_title ''title'' None,
            Text (lit_created_at @ date_time) ''datetime'' None,
            Str '''',
            Text lit_status_heading ''sub_title'' None,
            Str '''',
            Text lit_chart_heading ''sub_title'' None,
            Image image_file 450 300]"
    using assms(2) by (simp add: base_content_def tables_def)
  have t: "filter is_table (base_content e date_time country image_file) = []"
    unfolding b by simp
  have r: "createPdfKitDocument e (content e date_time country image_file) = None
            \<and> finished e (output_file e country) = None
          \<longrightarrow> fst (pdfGenerateFile e date_time country image_file)
                = Returns (Some (output_file e country))"
    using assms(1) by (simp add: saved_outcome)
  show ?thesis
    using b t r content_prefix printer_receives_content[OF assms(1)] by blast
qed

text \<open>Witness for C3: the country \<open>Peru\<close>, unknown to the statistics source.\<close>

theorem failed_statistics_fetch_document_witness:
  "\<not> loose_eq_empty (JStr ''chart.png'')
   \<and> httpGet env_example (url env_example ''Peru'') = None
   \<and> createPdfKitDocument env_example
        (content env_example ''2020-11-03 10:15'' ''Peru'' (JStr ''chart.png'')) = None
   \<and> finished env_example (output_file env_example ''Peru'') = None
   \<and> fst (pdfGenerateFile env_example ''2020-11-03 10:15'' ''Peru'' (JStr ''chart.png''))
       = Returns (Some ''./tmp/Report-Peru-20201103-101500.pdf'')
   \<and> filter is_table (base_content env_example ''2020-11-03 10:15'' ''Peru''
        (JStr ''chart.png'')) = []"
proof -
  have i: "\<not> loose_eq_empty (JStr ''chart.png'')" by simp
  have h: "httpGet env_example (url env_example ''Peru'') = None"
    by (simp add: env_example_def url_def)
  have c: "createPdfKitDocument env_example
        (content env_example ''2020-11-03 10:15'' ''Peru'' (JStr ''chart.png'')) = None"
    by (simp add: env_example_def content_def base_content_def tables_def url_def)
  have f: "finished env_example (output_file env_example ''Peru'') = None"
    by (simp add: env_example_def)
  have o: "output_file env_example ''Peru'' = ''./tmp/Report-Peru-20201103-101500.pdf''"
    by (simp add: env_example_def output_file_def)
  show ?thesis
    using failed_statistics_fetch_document[OF i h, of "''2020-11-03 10:15''"] i h c f o
    by simp
qed

subsection \<open>C4: the comment section\<close>

text \<open>
  C4: when the comment store returns one or more entries, the content is the base content
  followed by the comment subheading, which carries the \<open>id\<close> that forces the page
  break and is the only block that does, and by the comment table. The body of the table
  has one header row and one row per entry, in the order of the entries: the date of the
  entry under the format \<open>YYYY-MM-DD HH24:MI\<close>, which for a date with a year of four
  digits has the shape \<open>YYYY-MM-DD HH:MM\<close>, and the text of the entry unchanged. When
  the store returns \<open>null\<close> or an empty list, the content is the base content:
  neither the comment subheading nor a comment table is in it.
\<close>

theorem annotation_section:
  "(commentGet e country = Some comments \<and> comments \<noteq> [] \<longrightarrow>
      content e date_time country image_file
        = base_content e date_time country image_file
            @ [comment_heading, comment_table comments]
      \<and> length (content e date_time country image_file) = 9
      \<and> pageBreakBefore comment_heading
      \<and> filter pageBreakBefore (content e date_time country image_file) = [comment_heading]
      \<and> is_table (comment_table comments)
      \<and> length (table_body (comment_table comments)) = length comments + 1
      \<and> table_body (comment_table comments) ! 0
          = [Styled lit_date_time ''tableHeader'', Styled lit_comment ''tableHeader'']
      \<and> (\<forall>i < length comments.
            table_body (comment_table comments) ! (i + 1)
              = [Plain (toFormat (datetime (comments ! i))), Plain (comment (comments ! i))]
            \<and> (valid_date (datetime (comments ! i))
                 \<longrightarrow> is_timestamp_text (toFormat (datetime (comments ! i))))))
   \<and> (commentGet e country = None \<or> commentGet e country = Some [] \<longrightarrow>
        content e date_time country image_file = base_content e date_time country image_file
        \<and> filter pageBreakBefore (content e date_time country image_file) = []
        \<and> comment_heading \<notin> set (content e date_time country image_file)
        \<and> comment_table cs \<notin> set (content e date_time country image_file))"
proof (intro conjI impI)
  assume a: "commentGet e country = Some comments \<and> comments \<noteq> []"
  then show c: "content e date_time country image_file
        = base_content e date_time country image_file
            @ [comment_heading, comment_table comments]"
    by (simp add: content_def)
  show "length (content e date_time country image_file) = 9"
    unfolding c by (simp add: base_content_def)
  show p: "pageBreakBefore comment_heading"
    by (simp add: pageBreakBefore_def comment_heading_def)
  have "\<not> pageBreakBefore (comment_table comments)"
    by (simp add: pageBreakBefore_def comment_table_def)
  then show "filter pageBreakBefore (content e date_time country image_file) = [comment_heading]"
    unfolding c using p by (simp add: base_no_page_break)
  show "is_table (comment_table comments)"
    by (simp add: comment_table_def)
  show "length (table_body (comment_table comments)) = length comments + 1"
    by (simp add: comment_table_def push_rows_map)
  show "table_body (comment_table comments) ! 0
          = [Styled lit_date_time ''tableHeader'', Styled lit_comment ''tableHeader'']"
    by (simp add: comment_table_def push_rows_map)
  show "\<forall>i < length comments.
            table_body (comment_table comments) ! (i + 1)
              = [Plain (toFormat (datetime (comments ! i))), Plain (comment (comments ! i))]
            \<and> (valid_date (datetime (comments ! i))
                 \<longrightarrow> is_timestamp_text (toFormat (datetime (comments ! i))))"
    by (simp add: comment_table_def push_rows_map toFormat_shape)
next
  assume a: "commentGet e country = None \<or> commentGet e country = Some []"
  then show c: "content e date_time country image_file
      = base_content e date_time country image_file"
    by (auto simp: content_def)
  show "filter pageBreakBefore (content e date_time country image_file) = []"
    unfolding c by (rule base_no_page_break)
  show "comment_heading \<notin> set (content e date_time country image_file)"
    unfolding c by (rule comment_heading_not_in_base)
  show "comment_table cs \<notin> set (content e date_time country image_file)"
    unfolding c by (rule comment_table_not_in_base)
qed

text \<open>
  Witness for C4: two comments for \<open>all\<close>, the empty list for \<open>Japan\<close>, a failed
  fetch for \<open>Peru\<close>.
\<close>

theorem annotation_section_witness:
  "commentGet env_example ''all'' = Some comments_example \<and> comments_example \<noteq> []
   \<and> length (content env_example ''2020-11-03 10:15'' ''all'' (JStr ''chart.png'')) = 9
   \<and> length (table_body (comment_table comments_example)) = 3
   \<and> table_body (comment_table comments_example) ! 1
        = [Plain ''2020-11-03 09:05'', Plain ''first entry'']
   \<and> table_body (comment_table comments_example) ! 2
        = [Plain ''2021-01-15 23:40'', Plain ''second entry'']
   \<and> valid_date (datetime (comments_example ! 0))
   \<and> is_timestamp_text (toFormat (datetime (comments_example ! 0)))
   \<and> commentGet env_example ''Japan'' = Some []
   \<and> content env_example ''2020-11-03 10:15'' ''Japan'' (JStr ''chart.png'')
        = base_content env_example ''2020-11-03 10:15'' ''Japan'' (JStr ''chart.png'')
   \<and> commentGet env_example ''Peru'' = None
   \<and> filter pageBreakBefore
        (content env_example ''2020-11-03 10:15'' ''Peru'' (JStr ''chart.png'')) = []"
proof -
  have g: "commentGet env_example ''all'' = Some comments_example \<and> comments_example \<noteq> []"
    by (simp add: env_example_def comments_example_def)
  have j: "commentGet env_example ''Japan'' = Some []"
    by (simp add: env_example_def)
  have p: "commentGet env_example ''Peru'' = None"
    by (simp add: env_example_def)
  have v: "valid_date (datetime (comments_example ! 0))"
    by (simp add: comments_example_def valid_date_def)
  have f1: "toFormat (datetime (comments_example ! 0)) = ''2020-11-03 09:05''"
    by (simp add: comments_example_def toFormat_def pad_def dec.simps digit_def)
  have f2: "toFormat (datetime (comments_example ! 1)) = ''2021-01-15 23:40''"
    by (simp add: comments_example_def toFormat_def pad_def dec.simps digit_def)
  have c1: "comment (comments_example ! 0) = ''first entry''"
    and c2: "comment (comments_example ! 1) = ''second entry''"
    and l: "length comments_example = 2"
    by (simp_all add: comments_example_def)
  note A = annotation_section[of env_example "''all''" comments_example "''2020-11-03 10:15''"
      "JStr ''chart.png''"]
  note J = annotation_section[of env_example "''Japan''" comments_example "''2020-11-03 10:15''"
      "JStr ''chart.png''"]
  note P = annotation_section[of env_example "''Peru''" comments_example "''2020-11-03 10:15''"
      "JStr ''chart.png''"]
  from A g have A': "length (content env_example ''2020-11-03 10:15'' ''all'' (JStr ''chart.png'')) = 9"
    "length (table_body (comment_table comments_example)) = length comments_example + 1"
    "\<forall>i < length comments_example.
            table_body (comment_table comments_example) ! (i + 1)
              = [Plain (toFormat (datetime (comments_example ! i))), Plain (comment (comments_example ! i))]
            \<and> (valid_date (datetime (comments_example ! i))
                 \<longrightarrow> is_timestamp_text (toFormat (datetime (comments_example ! i))))"
    by blast+
  have "(0::nat) < length comments_example" by (simp add: l)
  with A'(3) have "table_body (comment_table comments_example) ! (0 + 1)
      = [Plain (toFormat (datetime (comments_example ! 0))),
         Plain (comment (comments_example ! 0))]
    \<and> (valid_date (datetime (comments_example ! 0))
         \<longrightarrow> is_timestamp_text (toFormat (datetime (comments_example ! 0))))"
    by blast
  with v have r0: "table_body (comment_table comments_example) ! 1
      = [Plain ''2020-11-03 09:05'', Plain ''first entry'']"
    and s0: "is_timestamp_text (toFormat (datetime (comments_example ! 0)))"
    unfolding f1 c1 by simp_all
  have "(1::nat) < length comments_example" by (simp add: l)
  with A'(3) have "table_body (comment_table comments_example) ! (1 + 1)
      = [Plain (toFormat (datetime (comments_example ! 1))),
         Plain (comment (comments_example ! 1))]"
    by blast
  then have r1: "table_body (comment_table comments_example) ! 2
      = [Plain ''2021-01-15 23:40'', Plain ''second entry'']"
    unfolding f2 c2 by (simp add: numeral_2_eq_2)
  from J j have J': "content env_example ''2020-11-03 10:15'' ''Japan'' (JStr ''chart.png'')
        = base_content env_example ''2020-11-03 10:15'' ''Japan'' (JStr ''chart.png'')"
    by blast
  from P p have P': "filter pageBreakBefore
        (content env_example ''2020-11-03 10:15'' ''Peru'' (JStr ''chart.png'')) = []"
    by blast
  show ?thesis
    using g j p v A'(1,2) r0 r1 s0 J' P' by (simp add: l)
qed

subsection \<open>C5: the page-break rule\<close>

text \<open>
  C5: the predicate given to the printer is true for a node exactly when the \<open>id\<close>
  of the node is \<open>comment\<close>. In every document the function builds, the only block for
  which it is true is the comment subheading; it is false for every other block and for
  every cell of every table.
\<close>

theorem page_break_rule:
  "(pageBreakBefore b \<longleftrightarrow> node_id b = Some ''comment'')
   \<and> (\<forall>b \<in> set (content e date_time country image_file).
         (pageBreakBefore b \<longleftrightarrow> b = comment_heading)
         \<and> (\<forall>row \<in> set (table_body b). \<forall>c \<in> set row. \<not> pageBreakBefore (cell_node c)))"
proof -
  have cells: "\<not> pageBreakBefore (cell_node c)" for c
    by (cases c) (simp_all add: pageBreakBefore_def)
  have base: "\<not> pageBreakBefore x \<and> x \<noteq> comment_heading"
    if "x \<in> set (base_content e date_time country image_file)" for x
  proof -
    from that have "x \<notin> set (filter pageBreakBefore (base_content e date_time country image_file))"
      by (simp only: base_no_page_break) simp
    with that have "\<not> pageBreakBefore x" by simp
    moreover from that have "x \<noteq> comment_heading"
      using comment_heading_not_in_base by metis
    ultimately show ?thesis by simp
  qed
  have tab: "\<not> pageBreakBefore (comment_table cs) \<and> comment_table cs \<noteq> comment_heading" for cs
    by (simp add: pageBreakBefore_def comment_table_def comment_heading_def)
  have hd: "pageBreakBefore comment_heading"
    by (simp add: pageBreakBefore_def comment_heading_def)
  have "pageBreakBefore x \<longleftrightarrow> x = comment_heading"
    if "x \<in> set (content e date_time country image_file)" for x
    using that base tab hd
    by (auto simp: content_def split: option.splits if_splits)
  then show ?thesis
    using cells by (simp add: pageBreakBefore_def)
qed

text \<open>Witness for C5: the document for \<open>all\<close>, which has a comment section.\<close>

theorem page_break_rule_witness:
  "comment_heading \<in> set (content env_example ''2020-11-03 10:15'' ''all'' (JStr ''chart.png''))
   \<and> pageBreakBefore comment_heading
   \<and> comment_table comments_example
        \<in> set (content env_example ''2020-11-03 10:15'' ''all'' (JStr ''chart.png''))
   \<and> \<not> pageBreakBefore (comment_table comments_example)
   \<and> [Plain ''2020-11-03 09:05'', Plain ''first entry'']
        \<in> set (table_body (comment_table comments_example))
   \<and> \<not> pageBreakBefore (cell_node (Plain ''first entry''))"
proof -
  have c: "content env_example ''2020-11-03 10:15'' ''all'' (JStr ''chart.png'')
      = base_content env_example ''2020-11-03 10:15'' ''all'' (JStr ''chart.png'')
          @ [comment_heading, comment_table comments_example]"
    by (simp add: content_def env_example_def comments_example_def)
  have h: "comment_heading
      \<in> set (content env_example ''2020-11-03 10:15'' ''all'' (JStr ''chart.png''))"
    and t: "comment_table comments_example
      \<in> set (content env_example ''2020-11-03 10:15'' ''all'' (JStr ''chart.png''))"
    unfolding c by simp_all
  have n: "comment_table comments_example \<noteq> comment_heading"
    by (simp add: comment_table_def comment_heading_def)
  have r: "[Plain ''2020-11-03 09:05'', Plain ''first entry'']
      \<in> set (table_body (comment_table comments_example))"
    by (simp add: comment_table_def comments_example_def toFormat_def pad_def dec.simps
        digit_def)
  have m: "Plain ''first entry'' \<in> set [Plain ''2020-11-03 09:05'', Plain ''first entry'']"
    by simp
  note R = page_break_rule[of comment_heading env_example "''2020-11-03 10:15''" "''all''"
      "JStr ''chart.png''"]
  from R h have 1: "pageBreakBefore comment_heading" by blast
  from R t n have 2: "\<not> pageBreakBefore (comment_table comments_example)" by blast
  from R t r m have 3: "\<not> pageBreakBefore (cell_node (Plain ''first entry''))" by blast
  show ?thesis using h t r 1 2 3 by simp
qed

subsection \<open>C6: the base content after a successful fetch\<close>

text \<open>
  C6 as stated counts six fixed base blocks besides the two tables. The array literal of
  lines 108 to 123 has seven entries: five fixed blocks and the two tables. At the
  concrete input the base content has 7 blocks, of which 5 are not tables, not 6.
\<close>

theorem base_blocks_count_counterexample:
  "\<not> loose_eq_empty (JStr ''chart.png'')
   \<and> httpGet env_example (url env_example ''all'') = Some stats_example
   \<and> length (base_content env_example ''2020-11-03 10:15'' ''all'' (JStr ''chart.png'')) = 7
   \<and> length (fixed_blocks
        (base_content env_example ''2020-11-03 10:15'' ''all'' (JStr ''chart.png''))) = 5
   \<and> length (fixed_blocks
        (base_content env_example ''2020-11-03 10:15'' ''all'' (JStr ''chart.png''))) \<noteq> 6"
  by (simp add: base_content_def tables_def url_def env_example_def fixed_blocks_def
      info_table_def status_table_def Let_def)

text \<open>
  C6 as amended: with a non-empty image handle and a successful statistics fetch, the
  base content consists of exactly seven blocks, five fixed blocks and the two tables, in
  the order title, time line, country table, status subheading, status table, chart
  subheading, image; the document handed to the printer starts with them.
\<close>

theorem base_content_on_success:
  assumes "\<not> loose_eq_empty image_file"
    and "httpGet e (url e country) = Some result"
  shows "base_content e date_time country image_file =
           [Text lit_title ''title'' None,
            Text (lit_created_at @ date_time) ''datetime'' None,
            info_table e country result,
            Text lit_status_heading ''sub_title'' None,
            status_table result,
            Text lit_chart_heading ''sub_title'' None,
            Image image_file 450 300]
       \<and> length (base_content e date_time country image_file) = 7
       \<and> fixed_blocks (base_content e date_time country image_file) =
           [Text lit_title ''title'' None,
            Text (lit_created_at @ date_time) ''datetime'' None,
            Text lit_status_heading ''sub_title'' None,
            Text lit_chart_heading ''sub_title'' None,
            Image image_file 450 300]
       \<and> filter is_table (base_content e date_time country image_file) =
           [info_table e country result, status_table result]
       \<and> take 7 (content e date_time country image_file)
           = base_content e date_time country image_file
       \<and> CreatePdfKitDocument (content e date_time country image_file)
           \<in> set (snd (pdfGenerateFile e date_time country image_file))"
proof -
  have b: "base_content e date_time country image_file =
           [Text lit_title ''title'' None,
            Text (lit_created_at @ date_time) ''datetime'' None,
            info_table e country result,
            Text lit_status_heading ''sub_title'' None,
            status_table result,
            Text lit_chart_heading ''sub_title'' None,
            Image image_file 450 300]"
    using assms(2) by (simp add: base_content_def tables_def)
  have i: "is_table (info_table e country result)" and s: "is_table (status_table result)"
    by (simp_all add: info_table_def status_table_def Let_def)
  have l: "length (base_content e date_time country image_file) = 7"
    unfolding b by simp
  have f: "fixed_blocks (base_content e date_time country image_file) =
           [Text lit_title ''title'' None,
            Text (lit_created_at @ date_time) ''datetime'' None,
            Text lit_status_heading ''sub_title'' None,
            Text lit_chart_heading ''sub_title'' None,
            Image image_file 450 300]"
    unfolding b fixed_blocks_def using i s by simp
  have t: "filter is_table (base_content e date_time country image_file) =
           [info_table e country result, status_table result]"
    unfolding b using i s by simp
  show ?thesis
    using b l f t content_prefix printer_receives_content[OF assms(1)] by blast
qed

text \<open>Witness for C6 as amended: the aggregate \<open>all\<close>.\<close>

theorem base_content_on_success_witness:
  "\<not> loose_eq_empty (JStr ''chart.png'')
   \<and> httpGet env_example (url env_example ''all'') = Some stats_example
   \<and> length (base_content env_example ''2020-11-03 10:15'' ''all'' (JStr ''chart.png'')) = 7
   \<and> filter is_table (base_content env_example ''2020-11-03 10:15'' ''all''
        (JStr ''chart.png''))
       = [info_table env_example ''all'' stats_example, status_table stats_example]
   \<and> table_body (info_table env_example ''all'' stats_example) ! 1
       = [Plain ''all'', Plain ''1,234,567'']"
proof -
  have i: "\<not> loose_eq_empty (JStr ''chart.png'')" by simp
  have h: "httpGet env_example (url env_example ''all'') = Some stats_example"
    by (simp add: env_example_def url_def)
  have p: "table_body (info_table env_example ''all'' stats_example) ! 1
       = [Plain ''all'', Plain ''1,234,567'']"
    by (simp add: info_table_def env_example_def stats_example_def group3_def dec.simps
        digit_def)
  show ?thesis
    using base_content_on_success[OF i h, of "''2020-11-03 10:15''"] i h p by blast
qed

subsection \<open>C7: the status table\<close>

text \<open>
  C7: the body of the status table has exactly six rows, in the order active, critical,
  recovered, cases, deaths, tests, each with its own label and the formatted value of its
  field; after a successful fetch this table is the fifth entry of the content. The
  values are grouped by thousands: a number below 1000 is its decimal string, a number
  from 1000 on is the formatted quotient by 1000, a comma, and the last three digits; so
  1234567 is rendered \<open>1,234,567\<close>.
\<close>

theorem status_table_rows:
  "table_body (status_table result) =
     [[Styled lit_active ''tableHeader'', Plain (toLocaleString (Number (active result)))],
      [Styled lit_critical ''tableHeader'', Plain (toLocaleString (Number (critical result)))],
      [Styled lit_recovered ''tableHeader'', Plain (toLocaleString (Number (recovered result)))],
      [Styled lit_cases ''tableHeader'', Plain (toLocaleString (Number (cases result)))],
      [Styled lit_deaths ''tableHeader'', Plain (toLocaleString (Number (deaths result)))],
      [Styled lit_tests ''tableHeader'', Plain (toLocaleString (Number (tests result)))]]
   \<and> length (table_body (status_table result)) = 6
   \<and> distinct [lit_active, lit_critical, lit_recovered, lit_cases, lit_deaths, lit_tests]
   \<and> (httpGet e (url e country) = Some result
        \<longrightarrow> base_content e date_time country image_file ! 4 = status_table result)
   \<and> toLocaleString (Num 1234567) = ''1,234,567''
   \<and> (0 \<le> i \<and> i < 1000 \<longrightarrow> toLocaleString (Num i) = dec (nat i))
   \<and> (1000 \<le> i \<longrightarrow>
        toLocaleString (Num i) =
          toLocaleString (Num (i div 1000)) @ '','' @
            [digit (nat i div 100 mod 10), digit (nat i div 10 mod 10), digit (nat i mod 10)])"
proof -
  have b: "table_body (status_table result) =
     [[Styled lit_active ''tableHeader'', Plain (toLocaleString (Number (active result)))],
      [Styled lit_critical ''tableHeader'', Plain (toLocaleString (Number (critical result)))],
      [Styled lit_recovered ''tableHeader'', Plain (toLocaleString (Number (recovered result)))],
      [Styled lit_cases ''tableHeader'', Plain (toLocaleString (Number (cases result)))],
      [Styled lit_deaths ''tableHeader'', Plain (toLocaleString (Number (deaths result)))],
      [Styled lit_tests ''tableHeader'', Plain (toLocaleString (Number (tests result)))]]"
    by (simp add: status_table_def Let_def)
  have l: "length (table_body (status_table result)) = 6"
    unfolding b by simp
  have d: "distinct [lit_active, lit_critical, lit_recovered, lit_cases, lit_deaths, lit_tests]"
    by (simp add: lit_defs)
  have p: "httpGet e (url e country) = Some result
        \<longrightarrow> base_content e date_time country image_file ! 4 = status_table result"
    by (simp add: base_content_def tables_def)
  have x: "toLocaleString (Num 1234567) = ''1,234,567''"
    by (simp add: group3_def dec.simps digit_def)
  show ?thesis
    using b l d p x toLocaleString_small[of i] toLocaleString_thousands[of i] by blast
qed

text \<open>Witness for C7: the record of the aggregate, and the numbers 1234567 and 30.\<close>

theorem status_table_rows_witness:
  "httpGet env_example (url env_example ''all'') = Some stats_example
   \<and> base_content env_example ''2020-11-03 10:15'' ''all'' (JStr ''chart.png'') ! 4
       = status_table stats_example
   \<and> table_body (status_table stats_example) ! 5
       = [Styled lit_tests ''tableHeader'', Plain ''500,000'']
   \<and> (1000::int) \<le> 1234567
   \<and> toLocaleString (Num 1234567) = toLocaleString (Num 1234) @ '','' @ ''567''
   \<and> (0::int) \<le> 30 \<and> (30::int) < 1000
   \<and> toLocaleString (Num 30) = dec 30"
proof -
  have h: "httpGet env_example (url env_example ''all'') = Some stats_example"
    by (simp add: env_example_def url_def)
  note S = status_table_rows[of stats_example env_example "''all''" "''2020-11-03 10:15''"
      "JStr ''chart.png''"]
  from S[of 0] h have 1: "base_content env_example ''2020-11-03 10:15'' ''all''
      (JStr ''chart.png'') ! 4 = status_table stats_example"
    by blast
  have t: "toLocaleString (Number (tests stats_example)) = ''500,000''"
    by (simp add: stats_example_def group3_def dec.simps digit_def)
  from S[of 0] have "table_body (status_table stats_example) ! 5
       = [Styled lit_tests ''tableHeader'', Plain (toLocaleString (Number (tests stats_example)))]"
    by simp
  then have 2: "table_body (status_table stats_example) ! 5
       = [Styled lit_tests ''tableHeader'', Plain ''500,000'']"
    unfolding t .
  have g: "(1000::int) \<le> 1234567" by simp
  with S[of 1234567] have "toLocaleString (Num 1234567) =
          toLocaleString (Num (1234567 div 1000)) @ '','' @
            [digit (nat 1234567 div 100 mod 10), digit (nat 1234567 div 10 mod 10),
             digit (nat 1234567 mod 10)]"
    by blast
  then have 3: "toLocaleString (Num 1234567) = toLocaleString (Num 1234) @ '','' @ ''567''"
    by (simp add: digit_def)
  have s: "(0::int) \<le> 30 \<and> (30::int) < 1000" by simp
  with S[of 30] have "toLocaleString (Num 30) = dec (nat 30)" by blast
  then have 4: "toLocaleString (Num 30) = dec 30" by simp
  show ?thesis using h 1 2 g 3 s 4 by blast
qed

subsection \<open>C8: the numeric cells\<close>

text \<open>
  C8 as stated wants the cell of a missing or \<open>null\<close> field to hold the text of that
  absence. \<open>Number(null)\<close> is 0, so the cell of a \<open>null\<close> field holds \<open>0\<close>: the
  table built from a record whose population is \<open>null\<close> is the table built from the
  record whose population is the number 0.
\<close>

theorem null_field_cell_counterexample:
  "table_body (info_table env_example ''all'' (stats_example\<lparr>population := FNull\<rparr>)) ! 1
     = [Plain ''all'', Plain ''0'']
   \<and> info_table env_example ''all'' (stats_example\<lparr>population := FNull\<rparr>)
     = info_table env_example ''all'' (stats_example\<lparr>population := FNum (Num 0)\<rparr>)"
  by (simp add: info_table_def env_example_def stats_example_def group3_def dec.simps
      digit_def)

text \<open>
  C8 as amended: for every fetched record both tables are built in full, the country
  table with two rows and the status table with six, every row with two cells, and every
  numeric cell holds \<open>Number(field).toLocaleString()\<close>: a number grouped by
  thousands, \<open>NaN\<close> for a missing field, and \<open>0\<close> for a \<open>null\<close> field.
\<close>

theorem numeric_cells:
  "table_body (info_table e country result) =
     [[Styled lit_country_name ''tableHeader'', Styled lit_population ''tableHeader''],
      [Plain (case translateCountryName e country of None \<Rightarrow> country | Some t \<Rightarrow> t),
       Plain (toLocaleString (Number (population result)))]]
   \<and> map (\<lambda>row. row ! 1) (table_body (status_table result)) =
       map (\<lambda>f. Plain (toLocaleString (Number (f result))))
         [active, critical, recovered, cases, deaths, tests]
   \<and> length (table_body (info_table e country result)) = 2
   \<and> length (table_body (status_table result)) = 6
   \<and> list_all (\<lambda>row. length row = 2)
        (table_body (info_table e country result) @ table_body (status_table result))
   \<and> toLocaleString (Number FMissing) = ''NaN''
   \<and> toLocaleString (Number FNull) = ''0''
   \<and> (0 \<le> i \<and> i < 1000 \<longrightarrow> toLocaleString (Number (FNum (Num i))) = dec (nat i))
   \<and> (1000 \<le> i \<longrightarrow>
        toLocaleString (Number (FNum (Num i))) =
          toLocaleString (Num (i div 1000)) @ '','' @
            [digit (nat i div 100 mod 10), digit (nat i div 10 mod 10), digit (nat i mod 10)])"
proof -
  have a: "table_body (info_table e country result) =
     [[Styled lit_country_name ''tableHeader'', Styled lit_population ''tableHeader''],
      [Plain (case translateCountryName e country of None \<Rightarrow> country | Some t \<Rightarrow> t),
       Plain (toLocaleString (Number (population result)))]]"
    by (simp add: info_table_def Let_def)
  have b: "map (\<lambda>row. row ! 1) (table_body (status_table result)) =
       map (\<lambda>f. Plain (toLocaleString (Number (f result))))
         [active, critical, recovered, cases, deaths, tests]"
    by (simp add: status_table_def Let_def)
  have c: "length (table_body (info_table e country result)) = 2"
    and d: "length (table_body (status_table result)) = 6"
    and f: "list_all (\<lambda>row. length row = 2)
        (table_body (info_table e country result) @ table_body (status_table result))"
    by (simp_all add: info_table_def status_table_def Let_def)
  have m: "toLocaleString (Number FMissing) = ''NaN''" by simp
  have n: "toLocaleString (Number FNull) = ''0''"
    by (simp add: group3_def dec.simps digit_def)
  have s: "0 \<le> i \<and> i < 1000 \<longrightarrow> toLocaleString (Number (FNum (Num i))) = dec (nat i)"
    using toLocaleString_small[of i] by simp
  have g: "1000 \<le> i \<longrightarrow>
        toLocaleString (Number (FNum (Num i))) =
          toLocaleString (Num (i div 1000)) @ '','' @
            [digit (nat i div 100 mod 10), digit (nat i div 10 mod 10), digit (nat i mod 10)]"
    using toLocaleString_thousands[of i] by simp
  show ?thesis
    using a b c d f m n s g by blast
qed

text \<open>
  Witness for C8 as amended: the record of the aggregate, whose \<open>critical\<close> is
  \<open>null\<close> and whose \<open>recovered\<close> is absent.
\<close>

theorem numeric_cells_witness:
  "table_body (info_table env_example ''all'' stats_example) ! 1
     = [Plain ''all'', Plain ''1,234,567'']
   \<and> map (\<lambda>row. row ! 1) (table_body (status_table stats_example))
     = [Plain ''1,000'', Plain ''0'', Plain ''NaN'', Plain ''2,000'', Plain ''30'',
        Plain ''500,000'']
   \<and> (0::int) \<le> 30 \<and> (30::int) < 1000
   \<and> toLocaleString (Number (FNum (Num 30))) = ''30''
   \<and> (1000::int) \<le> 500000
   \<and> toLocaleString (Number (FNum (Num 500000))) = toLocaleString (Num 500) @ '',000''"
proof -
  note N = numeric_cells[of env_example "''all''" stats_example]
  have tr: "translateCountryName env_example ''all'' = None"
    by (simp add: env_example_def)
  have p: "toLocaleString (Number (population stats_example)) = ''1,234,567''"
    by (simp add: stats_example_def group3_def dec.simps digit_def)
  from N[of 0] have "table_body (info_table env_example ''all'' stats_example) ! 1 =
      [Plain (case translateCountryName env_example ''all'' of None \<Rightarrow> ''all'' | Some t \<Rightarrow> t),
       Plain (toLocaleString (Number (population stats_example)))]"
    by simp
  then have 1: "table_body (info_table env_example ''all'' stats_example) ! 1
     = [Plain ''all'', Plain ''1,234,567'']"
    unfolding p tr by simp
  from N[of 0] have "map (\<lambda>row. row ! 1) (table_body (status_table stats_example)) =
       map (\<lambda>f. Plain (toLocaleString (Number (f stats_example))))
         [active, critical, recovered, cases, deaths, tests]"
    by blast
  then have 2: "map (\<lambda>row. row ! 1) (table_body (status_table stats_example))
     = [Plain ''1,000'', Plain ''0'', Plain ''NaN'', Plain ''2,000'', Plain ''30'',
        Plain ''500,000'']"
    by (simp add: stats_example_def group3_def dec.simps digit_def)
  have s: "(0::int) \<le> 30 \<and> (30::int) < 1000" by simp
  with N[of 30] have "toLocaleString (Number (FNum (Num 30))) = dec (nat 30)" by blast
  then have 3: "toLocaleString (Number (FNum (Num 30))) = ''30''"
    by (simp add: dec.simps digit_def)
  have g: "(1000::int) \<le> 500000" by simp
  with N[of 500000] have "toLocaleString (Number (FNum (Num 500000))) =
          toLocaleString (Num (500000 div 1000)) @ '','' @
            [digit (nat 500000 div 100 mod 10), digit (nat 500000 div 10 mod 10),
             digit (nat 500000 mod 10)]"
    by blast
  then have 4: "toLocaleString (Number (FNum (Num 500000)))
      = toLocaleString (Num 500) @ '',000''"
    by (simp add: digit_def)
  show ?thesis using 1 2 s 3 g 4 by blast
qed

subsection \<open>C9: the statistics URL\<close>

text \<open>
  C9: for the country \<open>all\<close> the URL is the base URL followed by \<open>all\<close>, for every
  other country the base URL followed by \<open>countries/\<close> and the country. The code puts
  no separator after the base URL: with a base URL that ends in a slash these are
  \<open><base>/all\<close> and \<open><base>/countries/<id>\<close>. The URL is the one the function
  fetches first.
\<close>

theorem url_resolution:
  "url e ''all'' = BASE_URL e @ ''all''
   \<and> (country \<noteq> ''all'' \<longrightarrow> url e country = BASE_URL e @ ''countries/'' @ country)
   \<and> (BASE_URL e = base @ ''/'' \<longrightarrow>
        url e ''all'' = base @ ''/all''
        \<and> (country \<noteq> ''all'' \<longrightarrow> url e country = base @ ''/countries/'' @ country))
   \<and> (\<not> loose_eq_empty image_file \<longrightarrow>
        hd (snd (pdfGenerateFile e date_time country image_file)) = HttpGet (url e country))"
  by (simp add: url_def first_event)

text \<open>Witness for C9: the base URL of the header comment, and the country Japan.\<close>

theorem url_resolution_witness:
  "BASE_URL env_example = ''https://disease.sh/v3/covid-19'' @ ''/''
   \<and> url env_example ''all'' = ''https://disease.sh/v3/covid-19/all''
   \<and> ''Japan'' \<noteq> ''all''
   \<and> url env_example ''Japan'' = ''https://disease.sh/v3/covid-19/countries/Japan''
   \<and> \<not> loose_eq_empty (JStr ''chart.png'')
   \<and> hd (snd (pdfGenerateFile env_example ''2020-11-03 10:15'' ''Japan'' (JStr ''chart.png'')))
       = HttpGet ''https://disease.sh/v3/covid-19/countries/Japan''"
proof -
  have b: "BASE_URL env_example = ''https://disease.sh/v3/covid-19'' @ ''/''"
    by (simp add: env_example_def)
  have n: "''Japan'' \<noteq> ''all''" by simp
  have i: "\<not> loose_eq_empty (JStr ''chart.png'')" by simp
  note U = url_resolution[of env_example "''Japan''" "''https://disease.sh/v3/covid-19''"
      "JStr ''chart.png''" "''2020-11-03 10:15''"]
  from U b have 1: "url env_example ''all'' = ''https://disease.sh/v3/covid-19'' @ ''/all''"
    by blast
  from U b n have 2: "url env_example ''Japan''
      = ''https://disease.sh/v3/covid-19'' @ ''/countries/'' @ ''Japan''"
    by blast
  from U i have 3: "hd (snd (pdfGenerateFile env_example ''2020-11-03 10:15'' ''Japan''
      (JStr ''chart.png''))) = HttpGet (url env_example ''Japan'')"
    by blast
  show ?thesis using b n i 1 2 3 by simp
qed

subsection \<open>C10: the guard is a loose equality\<close>

text \<open>
  C10 as stated has the function, for an image handle that is \<open>null\<close> or
  \<open>undefined\<close>, proceed through the fetches, the assembly and the file write. The
  assembled document then ends with an entry whose image is \<open>null\<close> or
  \<open>undefined\<close>, which the printer rejects inside the \<open>try\<close> block (line 192), so
  that the write stream of line 193 is never opened. In the concrete environment the
  guard lets both values pass, the document is handed to the printer, and the trace has no
  write.
\<close>

theorem null_image_no_write_counterexample:
  "\<not> loose_eq_empty JNull \<and> \<not> loose_eq_empty JUndefined
   \<and> CreatePdfKitDocument (content env_example ''2020-11-03 10:15'' ''Peru'' JNull)
        \<in> set (snd (pdfGenerateFile env_example ''2020-11-03 10:15'' ''Peru'' JNull))
   \<and> filter is_write (snd (pdfGenerateFile env_example ''2020-11-03 10:15'' ''Peru'' JNull))
        = []
   \<and> filter is_write
        (snd (pdfGenerateFile env_example ''2020-11-03 10:15'' ''Peru'' JUndefined)) = []"
  by (simp add: pdfGenerateFile_def render_and_save_def content_def base_content_def
      tables_def url_def env_example_def catch_handler_def fetch_events_def)

text \<open>
  C10 as amended: the guard holds exactly for the empty string, the number 0 and
  \<open>false\<close>, and for these the function returns \<open>null\<close> with no effect. For
  \<open>null\<close> and \<open>undefined\<close> the guard does not hold: the function fetches the
  statistics and the comments, assembles the document with that value as its image and
  hands it to the printer. The output file is opened exactly when the printer accepts the
  document; when the printer rejects it, nothing is written.
\<close>

theorem loose_emptiness_guard:
  "(loose_eq_empty image_file
      \<longleftrightarrow> image_file = JStr '''' \<or> image_file = JNum (Num 0) \<or> image_file = JBool False)
   \<and> (image_file = JStr '''' \<or> image_file = JNum (Num 0) \<or> image_file = JBool False
        \<longrightarrow> pdfGenerateFile e date_time country image_file = (Returns None, []))
   \<and> (image_file = JNull \<or> image_file = JUndefined \<longrightarrow>
        hd (snd (pdfGenerateFile e date_time country image_file)) = HttpGet (url e country)
        \<and> CommentGet country \<in> set (snd (pdfGenerateFile e date_time country image_file))
        \<and> CreatePdfKitDocument (content e date_time country image_file)
            \<in> set (snd (pdfGenerateFile e date_time country image_file))
        \<and> last (base_content e date_time country image_file) = Image image_file 450 300
        \<and> ((CreateWriteStream (output_file e country)
               \<in> set (snd (pdfGenerateFile e date_time country image_file)))
             = (createPdfKitDocument e (content e date_time country image_file) = None))
        \<and> ((filter is_write (snd (pdfGenerateFile e date_time country image_file)) = [])
             = (createPdfKitDocument e (content e date_time country image_file) \<noteq> None)))"
proof -
  have g: "loose_eq_empty image_file
      \<longleftrightarrow> image_file = JStr '''' \<or> image_file = JNum (Num 0) \<or> image_file = JBool False"
    by (cases image_file rule: loose_eq_empty.cases) auto
  have s: "image_file = JStr '''' \<or> image_file = JNum (Num 0) \<or> image_file = JBool False
        \<longrightarrow> pdfGenerateFile e date_time country image_file = (Returns None, [])"
    using g by (simp add: pdfGenerateFile_def)
  have r: "hd (snd (pdfGenerateFile e date_time country image_file)) = HttpGet (url e country)
        \<and> CommentGet country \<in> set (snd (pdfGenerateFile e date_time country image_file))
        \<and> CreatePdfKitDocument (content e date_time country image_file)
            \<in> set (snd (pdfGenerateFile e date_time country image_file))
        \<and> last (base_content e date_time country image_file) = Image image_file 450 300
        \<and> ((CreateWriteStream (output_file e country)
               \<in> set (snd (pdfGenerateFile e date_time country image_file)))
             = (createPdfKitDocument e (content e date_time country image_file) = None))
        \<and> ((filter is_write (snd (pdfGenerateFile e date_time country image_file)) = [])
             = (createPdfKitDocument e (content e date_time country image_file) \<noteq> None))"
    if "image_file = JNull \<or> image_file = JUndefined"
  proof -
    from that have n: "\<not> loose_eq_empty image_file" by auto
    have l: "last (base_content e date_time country image_file) = Image image_file 450 300"
      by (simp add: base_content_def)
    show ?thesis
      using first_event[OF n] fetches_in_trace[OF n] printer_receives_content[OF n] l
        write_iff_accepted[OF n] no_write_iff_rejected[OF n]
      by blast
  qed
  show ?thesis
    using g s r by blast
qed

text \<open>
  Witness for C10 as amended: the values 0 and \<open>false\<close>, which the guard stops, and
  \<open>null\<close> and \<open>undefined\<close>, which it lets pass and the printer rejects.
\<close>

theorem loose_emptiness_guard_witness:
  "pdfGenerateFile env_example ''2020-11-03 10:15'' ''Peru'' (JNum (Num 0)) = (Returns None, [])
   \<and> pdfGenerateFile env_example ''2020-11-03 10:15'' ''Peru'' (JBool False) = (Returns None, [])
   \<and> hd (snd (pdfGenerateFile env_example ''2020-11-03 10:15'' ''Peru'' JNull))
       = HttpGet ''https://disease.sh/v3/covid-19/countries/Peru''
   \<and> CommentGet ''Peru'' \<in> set (snd (pdfGenerateFile env_example ''2020-11-03 10:15'' ''Peru''
        JUndefined))
   \<and> CreatePdfKitDocument (content env_example ''2020-11-03 10:15'' ''Peru'' JNull)
        \<in> set (snd (pdfGenerateFile env_example ''2020-11-03 10:15'' ''Peru'' JNull))
   \<and> createPdfKitDocument env_example
        (content env_example ''2020-11-03 10:15'' ''Peru'' JNull) \<noteq> None
   \<and> CreateWriteStream ''./tmp/Report-Peru-20201103-101500.pdf''
        \<notin> set (snd (pdfGenerateFile env_example ''2020-11-03 10:15'' ''Peru'' JNull))"
proof -
  note Z = loose_emptiness_guard[of "JNum (Num 0)" env_example "''2020-11-03 10:15''" "''Peru''"]
  note F = loose_emptiness_guard[of "JBool False" env_example "''2020-11-03 10:15''" "''Peru''"]
  note N = loose_emptiness_guard[of JNull env_example "''2020-11-03 10:15''" "''Peru''"]
  note U = loose_emptiness_guard[of JUndefined env_example "''2020-11-03 10:15''" "''Peru''"]
  have u: "url env_example ''Peru'' = ''https://disease.sh/v3/covid-19/countries/Peru''"
    by (simp add: url_def env_example_def)
  have o: "output_file env_example ''Peru'' = ''./tmp/Report-Peru-20201103-101500.pdf''"
    by (simp add: output_file_def env_example_def)
  have c: "createPdfKitDocument env_example
        (content env_example ''2020-11-03 10:15'' ''Peru'' JNull) \<noteq> None"
    by (simp add: env_example_def content_def base_content_def tables_def url_def)
  from Z have 1: "pdfGenerateFile env_example ''2020-11-03 10:15'' ''Peru'' (JNum (Num 0))
      = (Returns None, [])"
    by blast
  from F have 2: "pdfGenerateFile env_example ''2020-11-03 10:15'' ''Peru'' (JBool False)
      = (Returns None, [])"
    by blast
  from N have 3: "hd (snd (pdfGenerateFile env_example ''2020-11-03 10:15'' ''Peru'' JNull))
       = HttpGet (url env_example ''Peru'')"
    by blast
  from U have 4: "CommentGet ''Peru''
      \<in> set (snd (pdfGenerateFile env_example ''2020-11-03 10:15'' ''Peru'' JUndefined))"
    by blast
  from N have 5: "CreatePdfKitDocument (content env_example ''2020-11-03 10:15'' ''Peru'' JNull)
        \<in> set (snd (pdfGenerateFile env_example ''2020-11-03 10:15'' ''Peru'' JNull))"
    by blast
  from N c have 6: "CreateWriteStream (output_file env_example ''Peru'')
        \<notin> set (snd (pdfGenerateFile env_example ''2020-11-03 10:15'' ''Peru'' JNull))"
    by blast
  show ?thesis using 1 2 3 4 5 6 c unfolding u o by blast
qed

end
